theory Spec2Isabelle
  imports Complex_Main
begin

section \<open>Numbers of the program\<close>

text \<open>
  The package computes with Python floats and with the \<open>numpy.float64\<close> scalars that
  \<open>scipy.stats\<close> returns. Both are IEEE doubles; they differ in what happens on a division
  by zero: a Python float raises \<open>ZeroDivisionError\<close>, a numpy scalar returns an infinity
  or a NaN (with a warning). The model keeps this difference.

  \<^item> Arguments of the functions (\<open>alpha\<close>, \<open>power\<close>, \<open>sse\<close>, \<open>df\<close>, the design
    parameters) are finite numbers, of type \<open>real\<close>.
  \<^item> Values that come out of \<open>scipy.stats\<close>, and everything computed from them, are of
    type \<open>fnum\<close>: a finite number, an infinity or NaN, with the IEEE rules for the
    special values.
  \<^item> Finite arithmetic is exact: rounding and overflow are not modelled, with one
    exception, the percentage in the key of the confidence interval (section
    \<open>The key of the confidence interval\<close>), where the program truncates a rounded
    product and the rounding decides the result.
  \<^item> The sign of a zero is not modelled: a zero divisor counts as \<open>+0\<close>. The program only
    squares such a quotient or multiplies it by zero, so the sign is never observed.
\<close>

datatype error = ValueError string | ZeroDivisionError | OverflowError

datatype fnum = Fin real | PInf | NInf | NaN

fun fneg :: "fnum \<Rightarrow> fnum" where
  "fneg (Fin a) = Fin (- a)"
| "fneg PInf = NInf"
| "fneg NInf = PInf"
| "fneg NaN = NaN"

fun fabs :: "fnum \<Rightarrow> fnum" where
  "fabs (Fin a) = Fin \<bar>a\<bar>"
| "fabs PInf = PInf"
| "fabs NInf = PInf"
| "fabs NaN = NaN"

fun fadd :: "fnum \<Rightarrow> fnum \<Rightarrow> fnum" where
  "fadd (Fin a) (Fin b) = Fin (a + b)"
| "fadd NaN y = NaN"
| "fadd x NaN = NaN"
| "fadd PInf NInf = NaN"
| "fadd NInf PInf = NaN"
| "fadd PInf y = PInf"
| "fadd x PInf = PInf"
| "fadd NInf y = NInf"
| "fadd x NInf = NInf"

definition fsub :: "fnum \<Rightarrow> fnum \<Rightarrow> fnum" where
  "fsub x y = fadd x (fneg y)"

fun fmul :: "fnum \<Rightarrow> fnum \<Rightarrow> fnum" where
  "fmul (Fin a) (Fin b) = Fin (a * b)"
| "fmul NaN y = NaN"
| "fmul x NaN = NaN"
| "fmul PInf (Fin b) = (if b = 0 then NaN else if 0 < b then PInf else NInf)"
| "fmul NInf (Fin b) = (if b = 0 then NaN else if 0 < b then NInf else PInf)"
| "fmul (Fin a) PInf = (if a = 0 then NaN else if 0 < a then PInf else NInf)"
| "fmul (Fin a) NInf = (if a = 0 then NaN else if 0 < a then NInf else PInf)"
| "fmul PInf PInf = PInf"
| "fmul PInf NInf = NInf"
| "fmul NInf PInf = NInf"
| "fmul NInf NInf = PInf"

text \<open>Division of numpy scalars: a zero divisor gives an infinity, or NaN for \<open>0 / 0\<close>.\<close>

fun fdiv :: "fnum \<Rightarrow> fnum \<Rightarrow> fnum" where
  "fdiv (Fin a) (Fin b) =
     (if b = 0 then (if a = 0 then NaN else if 0 < a then PInf else NInf) else Fin (a / b))"
| "fdiv NaN y = NaN"
| "fdiv x NaN = NaN"
| "fdiv (Fin a) PInf = Fin 0"
| "fdiv (Fin a) NInf = Fin 0"
| "fdiv PInf (Fin b) = (if 0 \<le> b then PInf else NInf)"
| "fdiv NInf (Fin b) = (if 0 \<le> b then NInf else PInf)"
| "fdiv PInf PInf = NaN"
| "fdiv PInf NInf = NaN"
| "fdiv NInf PInf = NaN"
| "fdiv NInf NInf = NaN"

text \<open>\<open>pow(x, 2)\<close> on a numpy scalar.\<close>

definition fpow2 :: "fnum \<Rightarrow> fnum" where
  "fpow2 x = fmul x x"

text \<open>Comparison: every comparison with NaN is false.\<close>

fun flt :: "fnum \<Rightarrow> fnum \<Rightarrow> bool" where
  "flt (Fin a) (Fin b) = (a < b)"
| "flt NaN y = False"
| "flt x NaN = False"
| "flt x NInf = False"
| "flt PInf y = False"
| "flt NInf y = True"
| "flt x PInf = True"

fun isinf :: "fnum \<Rightarrow> bool" where
  "isinf PInf = True"
| "isinf NInf = True"
| "isinf x = False"

text \<open>\<open>math.ceil\<close>: raises \<open>OverflowError\<close> on an infinity and \<open>ValueError\<close> on NaN.\<close>

fun py_ceil :: "fnum \<Rightarrow> error + int" where
  "py_ceil (Fin a) = Inr \<lceil>a\<rceil>"
| "py_ceil PInf = Inl OverflowError"
| "py_ceil NInf = Inl OverflowError"
| "py_ceil NaN = Inl (ValueError ''cannot convert float NaN to integer'')"

section \<open>The distribution provider\<close>

text \<open>
  \<open>scipy.stats.t\<close> and \<open>scipy.stats.nct\<close> are not part of the package. The quantile
  function of the central t-distribution is a parameter \<open>qt\<close> of the model
  (\<open>qt q d\<close> for a probability \<open>0 < q < 1\<close> and \<open>d > 0\<close> degrees of freedom); \<open>t_ppf\<close> adds
  what \<open>t.ppf\<close> does outside that range: NaN for \<open>df \<le> 0\<close>, for a NaN \<open>df\<close> and for a
  probability outside \<open>[0, 1]\<close>, and the infinite end points at 0 and 1. An infinite
  \<open>df\<close> is never passed by the code modelled here (\<open>_mde\<close> is modelled on finite
  arguments and the solvers leave the loop before the call); it is mapped to NaN.
  For \<open>_power\<close> the inverse survival function and the CDF of the noncentral
  t-distribution are parameters \<open>isf\<close> and \<open>cdf\<close>.
\<close>

definition t_ppf :: "(real \<Rightarrow> real \<Rightarrow> real) \<Rightarrow> real \<Rightarrow> fnum \<Rightarrow> fnum" where
  "t_ppf qt q df =
     (case df of
        Fin d \<Rightarrow>
          if d \<le> 0 then NaN
          else if q < 0 \<or> 1 < q then NaN
          else if q = 0 then NInf
          else if q = 1 then PInf
          else Fin (qt q d)
      | PInf \<Rightarrow> NaN
      | NInf \<Rightarrow> NaN
      | NaN \<Rightarrow> NaN)"

section \<open>The key of the confidence interval\<close>

text \<open>
  \<open>f'{int((1 - round(alpha, 2)) * 100)}% Confidence Interval'\<close>. Here the rounding of
  the doubles decides the integer, so it is modelled: \<open>fl\<close> rounds a real number to the
  nearest double (53 bits, ties to even; the exponent range is not modelled, and
  \<open>normalise\<close> finds the exponent within 2200 binary places of 1), \<open>round(x, 2)\<close> is
  correctly rounded, and \<open>int\<close> truncates towards zero.
\<close>

definition round_half_even :: "real \<Rightarrow> int" where
  "round_half_even q =
     (let f = \<lfloor>q\<rfloor>; d = q - of_int f
      in if d < 1 / 2 then f else if 1 / 2 < d then f + 1 else if even f then f else f + 1)"

fun normalise :: "nat \<Rightarrow> real \<Rightarrow> int \<Rightarrow> real \<times> int" where
  "normalise 0 x e = (x, e)"
| "normalise (Suc n) x e =
     (if 9007199254740992 \<le> \<bar>x\<bar> then normalise n (x / 2) (e + 1)
      else if \<bar>x\<bar> < 4503599627370496 then normalise n (2 * x) (e - 1)
      else (x, e))"

definition fl :: "real \<Rightarrow> real" where
  "fl x =
     (if x = 0 then 0
      else case normalise 2200 x 0 of (y, e) \<Rightarrow>
        (if 0 \<le> e then of_int (round_half_even y) * 2 ^ nat e
         else of_int (round_half_even y) / 2 ^ nat (- e)))"

definition py_round2 :: "real \<Rightarrow> real" where
  "py_round2 x = fl (of_int (round_half_even (x * 100)) / 100)"

definition py_int :: "real \<Rightarrow> int" where
  "py_int x = (if 0 \<le> x then \<lfloor>x\<rfloor> else \<lceil>x\<rceil>)"

definition ci_pct :: "real \<Rightarrow> int" where
  "ci_pct alpha = py_int (fl (fl (1 - py_round2 alpha) * 100))"

function str_nat :: "nat \<Rightarrow> string" where
  "str_nat n =
     (if n < 10 then [''0123456789'' ! n]
      else str_nat (n div 10) @ [''0123456789'' ! (n mod 10)])"
  by pat_completeness auto
termination
  by (relation "measure id") auto

declare str_nat.simps [simp del]

definition str_int :: "int \<Rightarrow> string" where
  "str_int i = (if i < 0 then CHR ''-'' # str_nat (nat (- i)) else str_nat (nat i))"

definition ci_key :: "real \<Rightarrow> string" where
  "ci_key alpha = str_int (ci_pct alpha) @ ''% Confidence Interval''"

text \<open>
  What the specification says the percentage is: \<open>pct = round((1 - alpha) * 100)\<close>,
  evaluated on doubles as well.
\<close>

definition spec_pct :: "real \<Rightarrow> int" where
  "spec_pct alpha = round_half_even (fl (fl (1 - alpha) * 100))"

section \<open>utils.py: the effect and power estimators\<close>

text \<open>
  The three lines that compute the critical values appear verbatim in \<open>_mde\<close> and in
  every solver of \<open>sample_size.py\<close>:
  \<^verbatim>\<open>
  t1 = abs(t_dist.ppf(alpha / 2, df)) if two_tailed else abs(t_dist.ppf(alpha, df))
  t2 = abs(t_dist.ppf(power, df))
  m = t1 + t2 if power >= 0.5 else t1 - t2
  \<close>
\<close>

definition crit_T1 :: "(real \<Rightarrow> real \<Rightarrow> real) \<Rightarrow> real \<Rightarrow> bool \<Rightarrow> fnum \<Rightarrow> fnum" where
  "crit_T1 qt alpha two_tailed df =
     (if two_tailed then fabs (t_ppf qt (alpha / 2) df) else fabs (t_ppf qt alpha df))"

definition crit_T2 :: "(real \<Rightarrow> real \<Rightarrow> real) \<Rightarrow> real \<Rightarrow> fnum \<Rightarrow> fnum" where
  "crit_T2 qt pwr df = fabs (t_ppf qt pwr df)"

definition crit_M :: "(real \<Rightarrow> real \<Rightarrow> real) \<Rightarrow> real \<Rightarrow> real \<Rightarrow> bool \<Rightarrow> fnum \<Rightarrow> fnum" where
  "crit_M qt pwr alpha two_tailed df =
     (let t1 = crit_T1 qt alpha two_tailed df; t2 = crit_T2 qt pwr df
      in if 1 / 2 \<le> pwr then fadd t1 t2 else fsub t1 t2)"

text \<open>The dictionary that \<open>_mde\<close> returns: a float under one key, a list of two under the other.\<close>

datatype dval = Float fnum | FloatList "fnum list"

type_synonym pydict = "string \<rightharpoonup> dval"

definition utils_mde ::
  "(real \<Rightarrow> real \<Rightarrow> real) \<Rightarrow> real \<Rightarrow> real \<Rightarrow> real \<Rightarrow> real \<Rightarrow> bool \<Rightarrow> error + pydict" where
  "utils_mde qt pwr alpha sse df two_tailed =
     (if sse < 0 then Inl (ValueError ''Sum of Squared Error cannot be less than 0'')
      else if df < 1 then Inl (ValueError ''degrees of freedom must be at least 1'')
      else
        let t1 = crit_T1 qt alpha two_tailed (Fin df);
            m = crit_M qt pwr alpha two_tailed (Fin df);
            mde = fmul m (Fin sse);
            lower_bound = fmul mde (fsub (Fin 1) (fdiv t1 m));
            upper_bound = fmul mde (fadd (Fin 1) (fdiv t1 m))
        in Inr (Map.empty(''minimum_detectable_effect'' \<mapsto> Float mde,
                          ci_key alpha \<mapsto> FloatList [lower_bound, upper_bound])))"

text \<open>
  \<open>_power\<close>: \<open>effect_size\<close> and \<open>sse\<close> are Python floats, so \<open>effect_size / sse\<close> raises
  \<open>ZeroDivisionError\<close> when \<open>sse\<close> is zero.
\<close>

definition utils_power ::
  "(real \<Rightarrow> real \<Rightarrow> fnum) \<Rightarrow> (fnum \<Rightarrow> real \<Rightarrow> real \<Rightarrow> fnum) \<Rightarrow>
   real \<Rightarrow> real \<Rightarrow> real \<Rightarrow> real \<Rightarrow> bool \<Rightarrow> error + fnum" where
  "utils_power isf cdf effect_size alpha sse df two_tailed =
     (if sse < 0 then Inl (ValueError ''Sum of Squared Error cannot be less than 0'')
      else if df < 1 then Inl (ValueError ''degrees of freedom must be at least 1'')
      else if sse = 0 then Inl ZeroDivisionError
      else
        let lamda = effect_size / sse
        in if two_tailed
           then Inr (fadd (fsub (Fin 1) (cdf (isf (alpha / 2) df) df lamda))
                          (cdf (fneg (isf (alpha / 2) df)) df lamda))
           else Inr (fsub (Fin 1) (cdf (isf alpha df) df lamda)))"

section \<open>A concrete provider\<close>

text \<open>
  Concrete inputs need a concrete provider. For two degrees of freedom the t-distribution
  has a closed form: its CDF is \<open>1/2 + t / (2 * sqrt (2 + t\<^sup>2))\<close> and its quantile function
  is \<open>(2q - 1) / sqrt (2q (1 - q))\<close>. \<open>ppf_df2\<close> returns this quantile for every \<open>df\<close>, so it
  agrees with \<open>t.ppf\<close> at \<open>df = 2\<close>; \<open>isf_df2\<close> is the matching inverse survival function.
  \<open>cdf_df2\<close> is the central CDF for two degrees of freedom; it ignores the noncentrality
  and agrees with \<open>nct.cdf\<close> at \<open>df = 2\<close> and noncentrality 0.
\<close>

definition t2_quantile :: "real \<Rightarrow> real" where
  "t2_quantile q = (2 * q - 1) / sqrt (2 * q * (1 - q))"

definition ppf_df2 :: "real \<Rightarrow> real \<Rightarrow> real" where
  "ppf_df2 q d = t2_quantile q"

definition isf_df2 :: "real \<Rightarrow> real \<Rightarrow> fnum" where
  "isf_df2 q d = t_ppf ppf_df2 (1 - q) (Fin d)"

definition cdf_df2 :: "fnum \<Rightarrow> real \<Rightarrow> real \<Rightarrow> fnum" where
  "cdf_df2 x d lam =
     (case x of
        Fin t \<Rightarrow> Fin (1 / 2 + t / (2 * sqrt (2 + t * t)))
      | PInf \<Rightarrow> Fin 1
      | NInf \<Rightarrow> Fin 0
      | NaN \<Rightarrow> NaN)"

section \<open>sample_size.py: the solvers\<close>

text \<open>
  The fourteen functions of \<open>sample_size.py\<close> have the same body; they differ in the name
  of the guess (\<open>K0\<close>, \<open>J0\<close>, \<open>L0\<close>, \<open>n0\<close>), in the formula of the degrees of freedom and in
  the variance factor. For \<open>sample_size_bcra3f2\<close>:
  \<^verbatim>\<open>
  df = 0
  for i in range(100):
      df = K0 * (J - 2) - g2
      if df < 0 or np.isinf(df):
          break
      T1 = abs(t_dist.ppf(alpha / 2, df)) if two_tailed else abs(t_dist.ppf(alpha, df))
      T2 = abs(t_dist.ppf(power, df))
      M = T1 + T2 if power >= 0.5 else T1 - T2
      K1 = pow(M / effect_size, 2) * (
              rho2 * (1 - r22) / (p * (1 - p) * J)
              + (1 - rho2) * (1 - r21) / (p * (1 - p) * J * n))
      if abs(K1 - K0) < tol:
          break
      K0 = (K1 + K0) / 2
  sample_size = ceil(K0) if df > 0 else None
  \<close>
  The body is modelled once, with the formula of the degrees of freedom \<open>df_of\<close> and the
  variance factor \<open>variance\<close> as arguments. The variance factor is computed on Python
  floats, so a zero denominator raises \<open>ZeroDivisionError\<close>: \<open>guard_div\<close> lists the
  denominators. \<open>M\<close> is a numpy scalar, so \<open>M / effect_size\<close> does not raise. The state of
  the loop is the number \<open>i\<close> of rounds started, the guess and the last \<open>df\<close>. Printing
  (\<open>print_pretty\<close>) is left out.
\<close>

definition guard_div :: "real list \<Rightarrow> real \<Rightarrow> error + real" where
  "guard_div ds v = (if 0 \<in> set ds then Inl ZeroDivisionError else Inr v)"

definition sample_size_round ::
  "(real \<Rightarrow> real \<Rightarrow> real) \<Rightarrow> (fnum \<Rightarrow> fnum) \<Rightarrow> error + real \<Rightarrow>
   real \<Rightarrow> real \<Rightarrow> real \<Rightarrow> bool \<Rightarrow> real \<Rightarrow> fnum \<Rightarrow> error + bool \<times> fnum \<times> fnum" where
  "sample_size_round qt df_of variance effect_size pwr alpha two_tailed tol K0 =
     (let df = df_of K0
      in if flt df (Fin 0) \<or> isinf df then Inr (True, K0, df)
         else
           let M = crit_M qt pwr alpha two_tailed df
           in case variance of
                Inl e \<Rightarrow> Inl e
              | Inr v \<Rightarrow>
                  let K1 = fmul (fpow2 (fdiv M (Fin effect_size))) (Fin v)
                  in if flt (fabs (fsub K1 K0)) (Fin tol) then Inr (True, K0, df)
                     else Inr (False, fdiv (fadd K1 K0) (Fin 2), df))"

fun sample_size_loop ::
  "(real \<Rightarrow> real \<Rightarrow> real) \<Rightarrow> (fnum \<Rightarrow> fnum) \<Rightarrow> error + real \<Rightarrow>
   real \<Rightarrow> real \<Rightarrow> real \<Rightarrow> bool \<Rightarrow> real \<Rightarrow>
   nat \<Rightarrow> nat \<Rightarrow> fnum \<Rightarrow> fnum \<Rightarrow> error + nat \<times> fnum \<times> fnum" where
  "sample_size_loop qt df_of variance effect_size pwr alpha two_tailed tol 0 i K0 df =
     Inr (i, K0, df)"
| "sample_size_loop qt df_of variance effect_size pwr alpha two_tailed tol (Suc n) i K0 df =
     (case sample_size_round qt df_of variance effect_size pwr alpha two_tailed tol K0 of
        Inl e \<Rightarrow> Inl e
      | Inr (stop, K0', df') \<Rightarrow>
          if stop then Inr (Suc i, K0', df')
          else sample_size_loop qt df_of variance effect_size pwr alpha two_tailed tol
                 n (Suc i) K0' df')"

definition sample_size_solve ::
  "(real \<Rightarrow> real \<Rightarrow> real) \<Rightarrow> (fnum \<Rightarrow> fnum) \<Rightarrow> error + real \<Rightarrow>
   real \<Rightarrow> real \<Rightarrow> real \<Rightarrow> bool \<Rightarrow> real \<Rightarrow> real \<Rightarrow> error + int option" where
  "sample_size_solve qt df_of variance effect_size pwr alpha two_tailed tol K0 =
     (case sample_size_loop qt df_of variance effect_size pwr alpha two_tailed tol
             100 0 (Fin K0) (Fin 0) of
        Inl e \<Rightarrow> Inl e
      | Inr (i, K, df) \<Rightarrow>
          if flt (Fin 0) df
          then (case py_ceil K of Inl e \<Rightarrow> Inl e | Inr c \<Rightarrow> Inr (Some c))
          else Inr None)"

subsection \<open>The fourteen designs\<close>

text \<open>\<^verbatim>\<open>sample_size_bcra3f2\<close>: \<^verbatim>\<open>df = K0 * (J - 2) - g2\<close>.\<close>

definition sample_size_bcra3f2 ::
  "(real \<Rightarrow> real \<Rightarrow> real) \<Rightarrow> real \<Rightarrow>
   real \<Rightarrow> real \<Rightarrow> real \<Rightarrow> real \<Rightarrow>
   real \<Rightarrow> bool \<Rightarrow> real \<Rightarrow> real \<Rightarrow>
   real \<Rightarrow> real \<Rightarrow> real \<Rightarrow> real \<Rightarrow> error + int option" where
  "sample_size_bcra3f2 qt rho2 n J effect_size pwr alpha two_tailed K0 tol p g2 r21 r22 =
     sample_size_solve qt
       (\<lambda>K0. fsub (fmul K0 (Fin (J - 2))) (Fin g2))
       (guard_div [p * (1 - p) * J, p * (1 - p) * J * n]
          (rho2 * (1 - r22) / (p * (1 - p) * J)
           + (1 - rho2) * (1 - r21) / (p * (1 - p) * J * n)))
       effect_size pwr alpha two_tailed tol K0"

text \<open>\<^verbatim>\<open>sample_size_bcra3r2\<close>: \<^verbatim>\<open>df = K0 - g3 - 1\<close>.\<close>

definition sample_size_bcra3r2 ::
  "(real \<Rightarrow> real \<Rightarrow> real) \<Rightarrow> real \<Rightarrow>
   real \<Rightarrow> real \<Rightarrow> real \<Rightarrow> real \<Rightarrow>
   real \<Rightarrow> real \<Rightarrow> real \<Rightarrow> bool \<Rightarrow>
   real \<Rightarrow> real \<Rightarrow> real \<Rightarrow> real \<Rightarrow>
   real \<Rightarrow> real \<Rightarrow> real \<Rightarrow> error + int option" where
  "sample_size_bcra3r2 qt rho2 rho3 omega3 n J effect_size pwr alpha two_tailed K0 tol p g3 r21 r22 r2t3 =
     sample_size_solve qt
       (\<lambda>K0. fsub (fsub K0 (Fin g3)) (Fin 1))
       (guard_div [p * (1 - p) * J, p * (1 - p) * J * n]
          (rho3 * omega3 * (1 - r2t3)
           + rho2 * (1 - r22) / (p * (1 - p) * J)
           + (1 - rho3 - rho2) * (1 - r21) / (p * (1 - p) * J * n)))
       effect_size pwr alpha two_tailed tol K0"

text \<open>\<^verbatim>\<open>sample_size_bcra4f3\<close>: \<^verbatim>\<open>df = L0 * (K - 2) - g3\<close>.\<close>

definition sample_size_bcra4f3 ::
  "(real \<Rightarrow> real \<Rightarrow> real) \<Rightarrow> real \<Rightarrow>
   real \<Rightarrow> real \<Rightarrow> real \<Rightarrow> real \<Rightarrow>
   real \<Rightarrow> real \<Rightarrow> real \<Rightarrow> bool \<Rightarrow>
   real \<Rightarrow> real \<Rightarrow> real \<Rightarrow> real \<Rightarrow>
   real \<Rightarrow> real \<Rightarrow> real \<Rightarrow> error + int option" where
  "sample_size_bcra4f3 qt rho2 rho3 n J K effect_size pwr alpha two_tailed L0 tol p g3 r21 r22 r23 =
     sample_size_solve qt
       (\<lambda>L0. fsub (fmul L0 (Fin (K - 2))) (Fin g3))
       (guard_div [p * (1 - p) * K, p * (1 - p) * K * J, p * (1 - p) * J * K * n]
          (rho3 * (1 - r23) / (p * (1 - p) * K)
           + rho2 * (1 - r22) / (p * (1 - p) * K * J)
           + (1 - rho3 - rho2) * (1 - r21) / (p * (1 - p) * J * K * n)))
       effect_size pwr alpha two_tailed tol L0"

text \<open>\<^verbatim>\<open>sample_size_bcra4r2\<close>: \<^verbatim>\<open>df = L0 - g4 - 1\<close>.\<close>

definition sample_size_bcra4r2 ::
  "(real \<Rightarrow> real \<Rightarrow> real) \<Rightarrow> real \<Rightarrow>
   real \<Rightarrow> real \<Rightarrow> real \<Rightarrow> real \<Rightarrow>
   real \<Rightarrow> real \<Rightarrow> real \<Rightarrow> real \<Rightarrow>
   real \<Rightarrow> real \<Rightarrow> bool \<Rightarrow> real \<Rightarrow>
   real \<Rightarrow> real \<Rightarrow> real \<Rightarrow> real \<Rightarrow>
   real \<Rightarrow> real \<Rightarrow> real \<Rightarrow> error + int option" where
  "sample_size_bcra4r2 qt rho2 rho3 rho4 omega3 omega4 n J K effect_size pwr alpha two_tailed L0 tol p r21 r22 r2t3 r2t4 g4 =
     sample_size_solve qt
       (\<lambda>L0. fsub (fsub L0 (Fin g4)) (Fin 1))
       (guard_div [K, p * (1 - p) * K * J, p * (1 - p) * J * K * n]
          (rho4 * omega4 * (1 - r2t4)
           + rho3 * omega3 * (1 - r2t3) / K
           + rho2 * (1 - r22) / (p * (1 - p) * K * J)
           + (1 - rho4 - rho3 - rho2) * (1 - r21) / (p * (1 - p) * J * K * n)))
       effect_size pwr alpha two_tailed tol L0"

text \<open>\<^verbatim>\<open>sample_size_bcra4r3\<close>: \<^verbatim>\<open>df = L0 - g4 - 1\<close>.\<close>

definition sample_size_bcra4r3 ::
  "(real \<Rightarrow> real \<Rightarrow> real) \<Rightarrow> real \<Rightarrow>
   real \<Rightarrow> real \<Rightarrow> real \<Rightarrow> real \<Rightarrow>
   real \<Rightarrow> real \<Rightarrow> real \<Rightarrow> real \<Rightarrow>
   real \<Rightarrow> bool \<Rightarrow> real \<Rightarrow> real \<Rightarrow>
   real \<Rightarrow> real \<Rightarrow> real \<Rightarrow> real \<Rightarrow>
   real \<Rightarrow> real \<Rightarrow> error + int option" where
  "sample_size_bcra4r3 qt rho2 rho3 rho4 omega4 n J K effect_size pwr alpha two_tailed L0 tol p r21 r22 r23 r2t4 g4 =
     sample_size_solve qt
       (\<lambda>L0. fsub (fsub L0 (Fin g4)) (Fin 1))
       (guard_div [p * (1 - p) * K, p * (1 - p) * K * J, p * (1 - p) * K * J * n]
          (rho4 * omega4 * (1 - r2t4)
           + rho3 * (1 - r23) / (p * (1 - p) * K)
           + rho2 * (1 - r22) / (p * (1 - p) * K * J)
           + (1 - rho4 - rho3 - rho2) * (1 - r21) / (p * (1 - p) * K * J * n)))
       effect_size pwr alpha two_tailed tol L0"

text \<open>\<^verbatim>\<open>sample_size_bira2c1\<close>: \<^verbatim>\<open>df = J0 * (n - 1) - g1 - 1\<close>.\<close>

definition sample_size_bira2c1 ::
  "(real \<Rightarrow> real \<Rightarrow> real) \<Rightarrow> real \<Rightarrow>
   real \<Rightarrow> real \<Rightarrow> real \<Rightarrow> bool \<Rightarrow>
   real \<Rightarrow> real \<Rightarrow> real \<Rightarrow> real \<Rightarrow>
   real \<Rightarrow> error + int option" where
  "sample_size_bira2c1 qt n effect_size pwr alpha two_tailed J0 tol p g1 r21 =
     sample_size_solve qt
       (\<lambda>J0. fsub (fsub (fmul J0 (Fin (n - 1))) (Fin g1)) (Fin 1))
       (guard_div [p * (1 - p) * n]
          ((1 - r21) / (p * (1 - p) * n)))
       effect_size pwr alpha two_tailed tol J0"

text \<open>\<^verbatim>\<open>sample_size_bira2f1\<close>: \<^verbatim>\<open>df = J0 * (n - 2) - g1\<close>.\<close>

definition sample_size_bira2f1 ::
  "(real \<Rightarrow> real \<Rightarrow> real) \<Rightarrow> real \<Rightarrow>
   real \<Rightarrow> real \<Rightarrow> real \<Rightarrow> bool \<Rightarrow>
   real \<Rightarrow> real \<Rightarrow> real \<Rightarrow> real \<Rightarrow>
   real \<Rightarrow> error + int option" where
  "sample_size_bira2f1 qt n effect_size pwr alpha two_tailed J0 tol p g1 r21 =
     sample_size_solve qt
       (\<lambda>J0. fsub (fmul J0 (Fin (n - 2))) (Fin g1))
       (guard_div [p * (1 - p) * n]
          ((1 - r21) / (p * (1 - p) * n)))
       effect_size pwr alpha two_tailed tol J0"

text \<open>\<^verbatim>\<open>sample_size_bira2r1\<close>: \<^verbatim>\<open>df = J0 - g2 - 1\<close>.\<close>

definition sample_size_bira2r1 ::
  "(real \<Rightarrow> real \<Rightarrow> real) \<Rightarrow> real \<Rightarrow>
   real \<Rightarrow> real \<Rightarrow> real \<Rightarrow> real \<Rightarrow>
   real \<Rightarrow> bool \<Rightarrow> real \<Rightarrow> real \<Rightarrow>
   real \<Rightarrow> real \<Rightarrow> real \<Rightarrow> real \<Rightarrow> error + int option" where
  "sample_size_bira2r1 qt rho2 omega2 n effect_size pwr alpha two_tailed J0 tol p g2 r21 r2t2 =
     sample_size_solve qt
       (\<lambda>J0. fsub (fsub J0 (Fin g2)) (Fin 1))
       (guard_div [p * (1 - p) * n]
          (rho2 * omega2 * (1 - r2t2)
           + (1 - rho2) * (1 - r21) / (p * (1 - p) * n)))
       effect_size pwr alpha two_tailed tol J0"

text \<open>\<^verbatim>\<open>sample_size_bira3r1\<close>: \<^verbatim>\<open>df = K0 - g3 - 1\<close>.\<close>

definition sample_size_bira3r1 ::
  "(real \<Rightarrow> real \<Rightarrow> real) \<Rightarrow> real \<Rightarrow>
   real \<Rightarrow> real \<Rightarrow> real \<Rightarrow> real \<Rightarrow>
   real \<Rightarrow> real \<Rightarrow> real \<Rightarrow> real \<Rightarrow>
   bool \<Rightarrow> real \<Rightarrow> real \<Rightarrow> real \<Rightarrow>
   real \<Rightarrow> real \<Rightarrow> real \<Rightarrow> real \<Rightarrow> error + int option" where
  "sample_size_bira3r1 qt rho2 rho3 omega2 omega3 n J effect_size pwr alpha two_tailed K0 tol p r21 r2t2 r2t3 g3 =
     sample_size_solve qt
       (\<lambda>K0. fsub (fsub K0 (Fin g3)) (Fin 1))
       (guard_div [J, p * (1 - p) * J * n]
          (rho3 * omega3 * (1 - r2t3)
           + rho2 * omega2 * (1 - r2t2) / J
           + (1 - rho3 - rho2) * (1 - r21) / (p * (1 - p) * J * n)))
       effect_size pwr alpha two_tailed tol K0"

text \<open>\<^verbatim>\<open>sample_size_bira4r1\<close>: \<^verbatim>\<open>df = L0 - g4 - 1\<close>.\<close>

definition sample_size_bira4r1 ::
  "(real \<Rightarrow> real \<Rightarrow> real) \<Rightarrow> real \<Rightarrow>
   real \<Rightarrow> real \<Rightarrow> real \<Rightarrow> real \<Rightarrow>
   real \<Rightarrow> real \<Rightarrow> real \<Rightarrow> real \<Rightarrow>
   real \<Rightarrow> real \<Rightarrow> real \<Rightarrow> bool \<Rightarrow>
   real \<Rightarrow> real \<Rightarrow> real \<Rightarrow> real \<Rightarrow>
   real \<Rightarrow> real \<Rightarrow> real \<Rightarrow> real \<Rightarrow> error + int option" where
  "sample_size_bira4r1 qt rho2 rho3 rho4 omega2 omega3 omega4 n J K effect_size pwr alpha two_tailed L0 tol p r21 r2t2 r2t3 r2t4 g4 =
     sample_size_solve qt
       (\<lambda>L0. fsub (fsub L0 (Fin g4)) (Fin 1))
       (guard_div [K, K * J, p * (1 - p) * K * J * n]
          (rho4 * omega4 * (1 - r2t4)
           + rho3 * omega3 * (1 - r2t3) / K
           + rho2 * omega2 * (1 - r2t2) / (K * J)
           + (1 - rho4 - rho3 - rho2) * (1 - r21) / (p * (1 - p) * K * J * n)))
       effect_size pwr alpha two_tailed tol L0"

text \<open>\<^verbatim>\<open>sample_size_cra2r2\<close>: \<^verbatim>\<open>df = J0 - g2 - 2\<close>.\<close>

definition sample_size_cra2r2 ::
  "(real \<Rightarrow> real \<Rightarrow> real) \<Rightarrow> real \<Rightarrow>
   real \<Rightarrow> real \<Rightarrow> real \<Rightarrow> real \<Rightarrow>
   bool \<Rightarrow> real \<Rightarrow> real \<Rightarrow> real \<Rightarrow>
   real \<Rightarrow> real \<Rightarrow> real \<Rightarrow> error + int option" where
  "sample_size_cra2r2 qt rho2 n effect_size pwr alpha two_tailed J0 tol p g2 r21 r22 =
     sample_size_solve qt
       (\<lambda>J0. fsub (fsub J0 (Fin g2)) (Fin 2))
       (guard_div [p * (1 - p), p * (1 - p) * n]
          (rho2 * (1 - r22) / (p * (1 - p))
           + (1 - rho2) * (1 - r21) / (p * (1 - p) * n)))
       effect_size pwr alpha two_tailed tol J0"

text \<open>\<^verbatim>\<open>sample_size_cra3r3\<close>: \<^verbatim>\<open>df = K0 - g3 - 2\<close>.\<close>

definition sample_size_cra3r3 ::
  "(real \<Rightarrow> real \<Rightarrow> real) \<Rightarrow> real \<Rightarrow>
   real \<Rightarrow> real \<Rightarrow> real \<Rightarrow> real \<Rightarrow>
   real \<Rightarrow> real \<Rightarrow> bool \<Rightarrow> real \<Rightarrow>
   real \<Rightarrow> real \<Rightarrow> real \<Rightarrow> real \<Rightarrow>
   real \<Rightarrow> real \<Rightarrow> error + int option" where
  "sample_size_cra3r3 qt rho2 rho3 n J effect_size pwr alpha two_tailed K0 tol p g3 r21 r22 r23 =
     sample_size_solve qt
       (\<lambda>K0. fsub (fsub K0 (Fin g3)) (Fin 2))
       (guard_div [p * (1 - p), p * (1 - p) * J, p * (1 - p) * J * n]
          (rho3 * (1 - r23) / (p * (1 - p))
           + rho2 * (1 - r22) / (p * (1 - p) * J)
           + (1 - rho3 - rho2) * (1 - r21) / (p * (1 - p) * J * n)))
       effect_size pwr alpha two_tailed tol K0"

text \<open>\<^verbatim>\<open>sample_size_cra4r4\<close>: \<^verbatim>\<open>df = L0 - g4 - 2\<close>.\<close>

definition sample_size_cra4r4 ::
  "(real \<Rightarrow> real \<Rightarrow> real) \<Rightarrow> real \<Rightarrow>
   real \<Rightarrow> real \<Rightarrow> real \<Rightarrow> real \<Rightarrow>
   real \<Rightarrow> real \<Rightarrow> real \<Rightarrow> real \<Rightarrow>
   bool \<Rightarrow> real \<Rightarrow> real \<Rightarrow> real \<Rightarrow>
   real \<Rightarrow> real \<Rightarrow> real \<Rightarrow> real \<Rightarrow>
   real \<Rightarrow> error + int option" where
  "sample_size_cra4r4 qt rho2 rho3 rho4 n J K effect_size pwr alpha two_tailed L0 tol p r21 r22 r23 r24 g4 =
     sample_size_solve qt
       (\<lambda>L0. fsub (fsub L0 (Fin g4)) (Fin 2))
       (guard_div [p * (1 - p), p * (1 - p) * K, p * (1 - p) * K * J, p * (1 - p) * J * K * n]
          (rho4 * (1 - r24) / (p * (1 - p))
           + rho3 * (1 - r23) / (p * (1 - p) * K)
           + rho2 * (1 - r22) / (p * (1 - p) * K * J)
           + (1 - rho4 - rho3 - rho2) * (1 - r21) / (p * (1 - p) * J * K * n)))
       effect_size pwr alpha two_tailed tol L0"

text \<open>\<^verbatim>\<open>sample_size_ira1r1\<close>: \<^verbatim>\<open>df = n0 - g1 - 1\<close>.\<close>

definition sample_size_ira1r1 ::
  "(real \<Rightarrow> real \<Rightarrow> real) \<Rightarrow> real \<Rightarrow>
   real \<Rightarrow> real \<Rightarrow> bool \<Rightarrow> real \<Rightarrow>
   real \<Rightarrow> real \<Rightarrow> real \<Rightarrow> real \<Rightarrow> error + int option" where
  "sample_size_ira1r1 qt effect_size pwr alpha two_tailed n0 tol p g1 r21 =
     sample_size_solve qt
       (\<lambda>n0. fsub (fsub n0 (Fin g1)) (Fin 1))
       (guard_div [p * (1 - p)]
          ((1 - r21) / (p * (1 - p))))
       effect_size pwr alpha two_tailed tol n0"

section \<open>Properties\<close>

lemma ci_key_not_mde: "ci_key alpha \<noteq> ''minimum_detectable_effect''"
proof
  assume "ci_key alpha = ''minimum_detectable_effect''"
  then have "last (ci_key alpha) = last ''minimum_detectable_effect''" by simp
  then show False by (simp add: ci_key_def)
qed

lemma t2_quantile_ninth: "t2_quantile (1 / 9) = - (7 / 4)"
proof -
  have s: "sqrt (2 * (1 / 9) * (1 - 1 / 9)) = 4 / 9"
    by (rule real_sqrt_unique) (simp_all add: power2_eq_square)
  show ?thesis unfolding t2_quantile_def s by simp
qed

lemma t2_quantile_two_thirds: "t2_quantile (2 / 3) = 1 / 2"
proof -
  have s: "sqrt (2 * (2 / 3) * (1 - 2 / 3)) = 2 / 3"
    by (rule real_sqrt_unique) (simp_all add: power2_eq_square)
  show ?thesis unfolding t2_quantile_def s by simp
qed

text \<open>
  C1. For every input with \<open>sse \<ge> 0\<close> and \<open>df \<ge> 1\<close>, \<open>_mde\<close> computes
  \<open>T1 = |quantile(alpha/2, df)|\<close> when two-tailed and \<open>|quantile(alpha, df)|\<close> otherwise,
  \<open>T2 = |quantile(power, df)|\<close>, \<open>M = T1 + T2\<close> when \<open>power \<ge> 0.5\<close> and \<open>T1 - T2\<close> otherwise,
  and returns \<open>mde = M * sse\<close> with the interval \<open>[mde * (1 - T1/M), mde * (1 + T1/M)]\<close>.
  The operations are those of numpy scalars, so the statement also covers the inputs
  where a quantile is infinite or NaN and where \<open>M\<close> is zero.
\<close>

theorem mde_computes:
  assumes "0 \<le> sse" and "1 \<le> df"
  shows "utils_mde qt pwr alpha sse df two_tailed =
     (let T1 = (if two_tailed then fabs (t_ppf qt (alpha / 2) (Fin df))
                else fabs (t_ppf qt alpha (Fin df)));
          T2 = fabs (t_ppf qt pwr (Fin df));
          M = (if 1 / 2 \<le> pwr then fadd T1 T2 else fsub T1 T2);
          mde = fmul M (Fin sse)
      in Inr (Map.empty(''minimum_detectable_effect'' \<mapsto> Float mde,
                        ci_key alpha \<mapsto> FloatList [fmul mde (fsub (Fin 1) (fdiv T1 M)),
                                                   fmul mde (fadd (Fin 1) (fdiv T1 M))])))"
  using assms by (simp add: utils_mde_def crit_M_def crit_T1_def crit_T2_def Let_def)

lemma t_ppf_fin: "0 < d \<Longrightarrow> 0 < q \<Longrightarrow> q < 1 \<Longrightarrow> t_ppf qt q (Fin d) = Fin (qt q d)"
  by (simp add: t_ppf_def)

theorem mde_computes_witness:
  "(0::real) \<le> 4 \<and> (1::real) \<le> 2 \<and>
   utils_mde ppf_df2 (2 / 3) (2 / 9) 4 2 True =
     Inr (Map.empty(''minimum_detectable_effect'' \<mapsto> Float (Fin 9),
                    ci_key (2 / 9) \<mapsto> FloatList [Fin 2, Fin 16]))"
  using mde_computes [of 4 2 ppf_df2 "2 / 3" "2 / 9" True]
  by (simp add: t_ppf_fin ppf_df2_def t2_quantile_ninth t2_quantile_two_thirds fsub_def)

lemma normalise_numeral:
  "normalise (numeral k) x e =
     (if 9007199254740992 \<le> \<bar>x\<bar> then normalise (pred_numeral k) (x / 2) (e + 1)
      else if \<bar>x\<bar> < 4503599627370496 then normalise (pred_numeral k) (2 * x) (e - 1)
      else (x, e))"
  by (simp add: numeral_eq_Suc)

lemmas float_eval = ci_pct_def py_int_def py_round2_def fl_def round_half_even_def
  normalise_numeral Let_def

lemma ci_pct_two_ninths: "ci_pct (2 / 9) = 78"
  by (simp add: float_eval)

lemma ci_key_two_ninths: "ci_key (2 / 9) = ''78% Confidence Interval''"
  by (simp add: ci_key_def ci_pct_two_ninths str_int_def str_nat.simps)









lemma t2_quantile_eight_ninths: "t2_quantile (8 / 9) = 7 / 4"
proof -
  have s: "sqrt (2 * (8 / 9) * (1 - 8 / 9)) = 4 / 9"
    by (rule real_sqrt_unique) (simp_all add: power2_eq_square)
  show ?thesis unfolding t2_quantile_def s by simp
qed







text \<open>
  C2, amended. For every input with \<open>sse > 0\<close> and \<open>df \<ge> 1\<close>, \<open>_power\<close> returns
  \<open>1 - cdf(isf(alpha/2, df), df, lambda) + cdf(- isf(alpha/2, df), df, lambda)\<close> when
  two-tailed and \<open>1 - cdf(isf(alpha, df), df, lambda)\<close> otherwise, with
  \<open>lambda = effect_size / sse\<close>.
\<close>

theorem power_computes:
  assumes "0 < sse" and "1 \<le> df"
  shows "utils_power isf cdf effect_size alpha sse df two_tailed =
     Inr (if two_tailed
          then fadd (fsub (Fin 1) (cdf (isf (alpha / 2) df) df (effect_size / sse)))
                    (cdf (fneg (isf (alpha / 2) df)) df (effect_size / sse))
          else fsub (Fin 1) (cdf (isf alpha df) df (effect_size / sse)))"
  using assms by (simp add: utils_power_def Let_def)

lemma cdf_df2_example: "cdf_df2 (Fin (7 / 4)) 2 0 = Fin (8 / 9)"
  and cdf_df2_example_neg: "cdf_df2 (Fin (- (7 / 4))) 2 0 = Fin (1 / 9)"
proof -
  have s: "sqrt (81 / 16) = 9 / 4"
    by (rule real_sqrt_unique) (simp_all add: power2_eq_square)
  show "cdf_df2 (Fin (7 / 4)) 2 0 = Fin (8 / 9)" by (simp add: cdf_df2_def s)
  show "cdf_df2 (Fin (- (7 / 4))) 2 0 = Fin (1 / 9)" by (simp add: cdf_df2_def s)
qed

lemma isf_df2_example: "isf_df2 (1 / 9) 2 = Fin (7 / 4)"
  by (simp add: isf_df2_def t_ppf_fin ppf_df2_def t2_quantile_eight_ninths)

theorem power_computes_witness:
  "(0::real) < 1 \<and> (1::real) \<le> 2 \<and>
   utils_power isf_df2 cdf_df2 0 (2 / 9) 1 2 True = Inr (Fin (2 / 9))"
  using power_computes [of 1 2 isf_df2 cdf_df2 0 "2 / 9" True]
  by (simp add: isf_df2_example cdf_df2_example cdf_df2_example_neg fsub_def)

text \<open>
  C2 as stated includes \<open>sse = 0\<close>, where the division \<open>effect_size / sse\<close> of two Python
  floats raises \<open>ZeroDivisionError\<close> and nothing is returned.
\<close>

theorem power_zero_sse_counterexample:
  "(0::real) \<le> 0 \<and> (1::real) \<le> 210 \<and>
   utils_power isf_df2 cdf_df2 (145 / 1000) (5 / 100) 0 210 True = Inl ZeroDivisionError"
  by (simp add: utils_power_def)




text \<open>
  Without the rounding of the doubles the percentage of the program,
  \<open>int((1 - round(alpha, 2)) * 100)\<close>, is the percentage of the specification,
  \<open>round((1 - alpha) * 100)\<close>, for every \<open>alpha\<close>. They part only through \<open>fl\<close>.
\<close>

lemma round_half_even_reflect:
  "round_half_even (100 - x) = 100 - round_half_even x"
proof -
  define f where "f = \<lfloor>x\<rfloor>"
  define d where "d = x - of_int f"
  have d: "0 \<le> d" "d < 1" unfolding d_def f_def by linarith+
  have x: "x = of_int f + d" by (simp add: d_def)
  show ?thesis
  proof (cases "d = 0")
    case True
    then have "100 - x = of_int (100 - f)" using x by simp
    then have fl: "\<lfloor>100 - x\<rfloor> = 100 - f" by (metis floor_of_int)
    have "round_half_even (100 - x) = 100 - f"
      unfolding round_half_even_def Let_def fl using x True by simp
    moreover have "round_half_even x = f"
      unfolding round_half_even_def Let_def f_def [symmetric] using x True by simp
    ultimately show ?thesis by simp
  next
    case False
    then have dp: "0 < d" using d by simp
    have "100 - x = of_int (99 - f) + (1 - d)" using x by simp
    then have fl: "\<lfloor>100 - x\<rfloor> = 99 - f" using d dp by (intro floor_unique) simp_all
    have d': "100 - x - of_int (99 - f) = 1 - d" using x by simp
    have a: "round_half_even (100 - x) =
        (if 1 - d < 1 / 2 then 99 - f else if 1 / 2 < 1 - d then 99 - f + 1
         else if even (99 - f) then 99 - f else 99 - f + 1)"
      unfolding round_half_even_def Let_def fl d' ..
    have b: "round_half_even x =
        (if d < 1 / 2 then f else if 1 / 2 < d then f + 1 else if even f then f else f + 1)"
      unfolding round_half_even_def Let_def f_def [symmetric] d_def [symmetric] ..
    show ?thesis unfolding a b by auto
  qed
qed

lemma exact_pct_agree:
  "py_int ((1 - of_int (round_half_even (a * 100)) / 100) * 100) = round_half_even ((1 - a) * 100)"
proof -
  have "(1 - of_int (round_half_even (a * 100)) / 100) * 100
          = (of_int (100 - round_half_even (a * 100)) :: real)"
    by (simp add: algebra_simps)
  then have "py_int ((1 - of_int (round_half_even (a * 100)) / 100) * 100)
          = 100 - round_half_even (a * 100)"
    by (simp only: py_int_def floor_of_int ceiling_of_int if_cancel)
  moreover have "(1 - a) * 100 = 100 - a * 100" by (simp add: algebra_simps)
  ultimately show ?thesis by (simp only: round_half_even_reflect)
qed

lemma ci_pct_34: "ci_pct (fl (34 / 100)) = 65"
  by (simp add: float_eval)

lemma spec_pct_34: "spec_pct (fl (34 / 100)) = 66"
  by (simp add: spec_pct_def float_eval)

lemma ci_pct_05: "ci_pct (fl (5 / 100)) = 95"
  by (simp add: float_eval)

lemma str_int_examples: "str_int 95 = ''95''" "str_int 65 = ''65''"
  by (simp_all add: str_int_def str_nat.simps)

lemma ci_key_05: "ci_key (fl (5 / 100)) = ''95% Confidence Interval''"
  unfolding ci_key_def ci_pct_05 str_int_examples by simp

text \<open>
  C7. The key should carry \<open>pct = round((1 - alpha) * 100)\<close>. For \<open>alpha = 0.34\<close> the
  specification's percentage is 66, but \<open>(1 - 0.34) * 100\<close> is the double
  \<open>65.99999999999999\<close>, which \<open>int\<close> truncates: the dictionary has the key
  \<open>65% Confidence Interval\<close> and no key \<open>66% Confidence Interval\<close>.
\<close>

theorem ci_key_34:
  "ci_key (fl (34 / 100)) = ''65% Confidence Interval'' \<and>
   spec_pct (fl (34 / 100)) = 66 \<and>
   (\<exists>d. utils_mde ppf_df2 (8 / 10) (fl (34 / 100)) (51 / 1000) 210 True = Inr d \<and>
        d ''65% Confidence Interval'' \<noteq> None \<and> d ''66% Confidence Interval'' = None)"
proof -
  have k: "ci_key (fl (34 / 100)) = ''65% Confidence Interval''"
    unfolding ci_key_def ci_pct_34 str_int_examples by simp
  show ?thesis
    unfolding k spec_pct_34 utils_mde_def Let_def by simp
qed



lemma sample_size_iteration_finite:
  assumes "df_of (Fin k) = Fin d" and "0 < d" and "variance = Inr v" and "effect_size \<noteq> 0"
    and "0 < alpha" and "alpha < 1" and "0 < pwr" and "pwr < 1"
  shows "sample_size_loop qt df_of variance effect_size pwr alpha two_tailed tol (Suc n) i (Fin k) df0 =
     (let T1 = (if two_tailed then \<bar>qt (alpha / 2) d\<bar> else \<bar>qt alpha d\<bar>);
          T2 = \<bar>qt pwr d\<bar>;
          M = (if 1 / 2 \<le> pwr then T1 + T2 else T1 - T2);
          K1 = (M / effect_size)\<^sup>2 * v
      in if \<bar>K1 - k\<bar> < tol then Inr (Suc i, Fin k, Fin d)
         else sample_size_loop qt df_of variance effect_size pwr alpha two_tailed tol
                n (Suc i) (Fin ((K1 + k) / 2)) (Fin d))"
  using assms
  by (simp add: sample_size_round_def Let_def crit_M_def crit_T1_def crit_T2_def t_ppf_fin
      fpow2_def fsub_def power2_eq_square)

lemma loop_numeral:
  "sample_size_loop qt df_of variance effect_size pwr alpha two_tailed tol (numeral k) i K0 df =
     (case sample_size_round qt df_of variance effect_size pwr alpha two_tailed tol K0 of
        Inl e \<Rightarrow> Inl e
      | Inr (stop, K0', df') \<Rightarrow>
          if stop then Inr (Suc i, K0', df')
          else sample_size_loop qt df_of variance effect_size pwr alpha two_tailed tol
                 (pred_numeral k) (Suc i) K0' df')"
  by (simp add: numeral_eq_Suc)

lemma zero_effect_overflow:
  assumes "df_of (Fin K0) = Fin d" and "0 < d"
    and "crit_M qt pwr alpha two_tailed (Fin d) = Fin m" and "0 < m"
    and "variance = Inr v" and "0 < v" and "df_of PInf = PInf"
  shows "sample_size_solve qt df_of variance 0 pwr alpha two_tailed tol K0 = Inl OverflowError"
proof -
  have r1: "sample_size_round qt df_of variance 0 pwr alpha two_tailed tol (Fin K0)
              = Inr (False, PInf, Fin d)"
    using assms by (simp add: sample_size_round_def Let_def fpow2_def fsub_def)
  have r2: "sample_size_round qt df_of variance 0 pwr alpha two_tailed tol PInf
              = Inr (True, PInf, PInf)"
    using assms by (simp add: sample_size_round_def Let_def)
  have "sample_size_loop qt df_of variance 0 pwr alpha two_tailed tol 100 0 (Fin K0) (Fin 0)
          = Inr (2, PInf, PInf)"
    by (simp add: loop_numeral r1 r2)
  then show ?thesis by (simp add: sample_size_solve_def)
qed

lemma crit_M_default: "\<exists>m. crit_M ppf_df2 (4 / 5) (1 / 10) True (Fin 2) = Fin m \<and> 0 < m"
  by (simp add: crit_M_def crit_T1_def crit_T2_def Let_def t_ppf_fin ppf_df2_def t2_quantile_def
      add_pos_nonneg)

text \<open>
  C4. A solver should return \<open>None\<close>, and raise nothing, as soon as \<open>df\<close> is not finite.
  With \<open>effect_size = 0\<close> the first round of \<open>sample_size_bcra3f2\<close> (\<open>df = 2\<close>) proposes an
  infinite \<open>K1\<close>, the guess becomes infinite, the second round computes \<open>df = inf\<close> and
  leaves the loop; \<open>df > 0\<close> holds for the infinity, so \<open>ceil(K0)\<close> is evaluated on it and
  raises \<open>OverflowError\<close>.
\<close>

theorem sample_size_zero_effect:
  "sample_size_bcra3f2 ppf_df2 (1 / 10) 20 4 0 (4 / 5) (1 / 10) True 1 (1 / 10) (1 / 2) 0 0 0
     = Inl OverflowError"
proof -
  obtain m where m: "crit_M ppf_df2 (4 / 5) (1 / 10) True (Fin 2) = Fin m" "0 < m"
    using crit_M_default by blast
  show ?thesis
    unfolding sample_size_bcra3f2_def
    by (rule zero_effect_overflow [where d = 2 and m = m and v = "29 / 200"])
       (simp_all add: m fsub_def guard_div_def)
qed


text \<open>
  What the guard \<open>df < 0\<close> leaves to the rest of the loop. A negative \<open>df\<close> ends the loop in
  the round that computes it. A \<open>df\<close> of exactly zero passes the guard: the quantiles are
  NaN, no comparison with NaN holds, and all 100 rounds run before \<open>None\<close> is returned.
\<close>

lemma nan_round:
  assumes "df_of NaN = NaN" and "variance = Inr v"
  shows "sample_size_round qt df_of variance effect_size pwr alpha two_tailed tol NaN
           = Inr (False, NaN, NaN)"
  using assms
  by (simp add: sample_size_round_def Let_def crit_M_def crit_T1_def crit_T2_def t_ppf_def
      fpow2_def fsub_def)

lemma nan_loop:
  assumes "df_of NaN = NaN" and "variance = Inr v"
  shows "sample_size_loop qt df_of variance effect_size pwr alpha two_tailed tol n i NaN df
           = Inr (i + n, NaN, if n = 0 then df else NaN)"
proof (induction n arbitrary: i df)
  case 0
  then show ?case by simp
next
  case (Suc n)
  show ?case
    by (simp add: nan_round [where df_of = df_of and variance = variance and v = v, OF assms] Suc.IH)
qed

lemma zero_df_runs_on:
  assumes "df_of (Fin K0) = Fin 0" and "df_of NaN = NaN" and "variance = Inr v"
  shows "sample_size_loop qt df_of variance effect_size pwr alpha two_tailed tol 100 0 (Fin K0) (Fin 0)
           = Inr (100, NaN, NaN)"
    and "sample_size_solve qt df_of variance effect_size pwr alpha two_tailed tol K0 = Inr None"
proof -
  have r: "sample_size_round qt df_of variance effect_size pwr alpha two_tailed tol (Fin K0)
             = Inr (False, NaN, Fin 0)"
    using assms
    by (simp add: sample_size_round_def Let_def crit_M_def crit_T1_def crit_T2_def t_ppf_def
        fpow2_def fsub_def)
  show l: "sample_size_loop qt df_of variance effect_size pwr alpha two_tailed tol 100 0 (Fin K0) (Fin 0)
           = Inr (100, NaN, NaN)"
    by (subst loop_numeral)
       (simp add: r nan_loop [where df_of = df_of and variance = variance and v = v, OF assms(2,3)])
  show "sample_size_solve qt df_of variance effect_size pwr alpha two_tailed tol K0 = Inr None"
    by (simp add: sample_size_solve_def l)
qed

lemma negative_df_stops:
  assumes "df_of (Fin K0) = Fin d" and "d < 0"
  shows "sample_size_loop qt df_of variance effect_size pwr alpha two_tailed tol 100 0 (Fin K0) (Fin 0)
           = Inr (1, Fin K0, Fin d)"
    and "sample_size_solve qt df_of variance effect_size pwr alpha two_tailed tol K0 = Inr None"
proof -
  have r: "sample_size_round qt df_of variance effect_size pwr alpha two_tailed tol (Fin K0)
             = Inr (True, Fin K0, Fin d)"
    using assms by (simp add: sample_size_round_def Let_def)
  show l: "sample_size_loop qt df_of variance effect_size pwr alpha two_tailed tol 100 0 (Fin K0) (Fin 0)
           = Inr (1, Fin K0, Fin d)"
    by (simp add: loop_numeral r)
  show "sample_size_solve qt df_of variance effect_size pwr alpha two_tailed tol K0 = Inr None"
    using assms by (simp add: sample_size_solve_def l)
qed

lemma sample_size_zero_df:
  "sample_size_bcra3f2 ppf_df2 (1 / 10) 20 4 (1 / 4) (4 / 5) (1 / 10) True 0 (1 / 10) (1 / 2) 0 0 0
     = Inr None"
  unfolding sample_size_bcra3f2_def
  by (rule zero_df_runs_on (2) [where v = "29 / 200"]) (simp_all add: fsub_def guard_div_def)

end
